theory Spec2Isabelle
  imports Complex_Main
begin

section \<open>Text, content identity and JSON values\<close>

text \<open>
  A Python \<open>str\<close> is a sequence of Unicode code points, a \<open>bytes\<close> value a sequence of
  numbers below 256. Text is taken to be well-formed (no lone surrogates), so that
  \<open>str.encode()\<close>, which is UTF-8 by default, is total on it.
\<close>

type_synonym pystr = "nat list"
type_synonym bytes = "nat list"

definition ascii :: "string \<Rightarrow> pystr" where
  "ascii s = map of_char s"

definition utf8 :: "nat \<Rightarrow> bytes" where
  "utf8 c =
     (if c < 128 then [c]
      else if c < 2048 then [192 + c div 64, 128 + c mod 64]
      else if c < 65536 then [224 + c div 4096, 128 + (c div 64) mod 64, 128 + c mod 64]
      else [240 + c div 262144, 128 + (c div 4096) mod 64, 128 + (c div 64) mod 64,
            128 + c mod 64])"

definition encode :: "pystr \<Rightarrow> bytes" where
  "encode s = concat (map utf8 s)"

text \<open>
  Both adapters clean a document's content with \<open>str.replace\<close> before hashing and
  storing it: every NUL (code point 0) becomes the replacement character U+FFFD (code
  point 65533); nothing else changes.
\<close>

definition replace_nul :: "pystr \<Rightarrow> pystr" where
  "replace_nul s = map (\<lambda>c. if c = 0 then 65533 else c) s"

text \<open>
  \<open>hashlib.md5(b).hexdigest()\<close> is a function of the standard library; the adapters are
  parametrised by it (\<open>md5\<close> below, of type \<open>bytes \<Rightarrow> pystr\<close>).
\<close>

type_synonym hexdigest = "bytes \<Rightarrow> pystr"

datatype json =
    JNull
  | JBool bool
  | JNum real
  | JStr pystr
  | JArr "json list"
  | JObj "(pystr \<times> json) list"

text \<open>
  A text that is handed to, or came from, \<open>json\<close> is represented by what \<open>json.loads\<close>
  makes of it: \<open>JsonOf j\<close> is a text that loads as \<open>j\<close> (\<open>json.dumps j\<close> is such a text),
  \<open>Invalid s\<close> is a text \<open>s\<close> that \<open>json.loads\<close> rejects.
\<close>

datatype jtext = JsonOf json | Invalid pystr

datatype error =
    ValueError
  | AttributeError
  | TypeError
  | KeyError
  | IndexError
  | JSONDecodeError
  | TableNotFound
  | ProgrammingError
  | NotImplementedError

definition json_dumps :: "json \<Rightarrow> jtext" where
  "json_dumps j = JsonOf j"

fun json_loads :: "jtext \<Rightarrow> error + json" where
  "json_loads (JsonOf j) = Inr j"
| "json_loads (Invalid s) = Inl JSONDecodeError"

section \<open>Documents and the embedding provider\<close>

type_synonym vec = "real list"

text \<open>
  Modelled from the spec: the embedding provider (\<open>phi.embedder\<close>, not among the sources).
  Its contract is \<open>get_embedding(text) -> sequence<float> | absent\<close> and \<open>dimensions\<close>.
\<close>

record embedder =
  get_embedding :: "pystr \<Rightarrow> vec option"
  dimensions :: "int option"

text \<open>
  Modelled from the spec: the document (\<open>phi.document.Document\<close>, not among the sources),
  with the fields of the data model; \<open>doc_id\<close> is the field \<open>id\<close>. An absent \<open>name\<close> or
  \<open>usage\<close> is Python's \<open>None\<close>.
\<close>

record document =
  doc_id :: "pystr option"
  name :: "pystr option"
  content :: pystr
  meta_data :: json
  usage :: json
  embedding :: "vec option"

text \<open>
  Modelled from the spec: \<open>Document.embed(embedder)\<close> obtains the document's embedding from
  the provider, which may return an absent result, and stores it in the document.
\<close>

definition embed :: "embedder \<Rightarrow> document \<Rightarrow> document" where
  "embed e d = d\<lparr>embedding := get_embedding e (content d)\<rparr>"

fun json_of_str :: "pystr option \<Rightarrow> json" where
  "json_of_str None = JNull"
| "json_of_str (Some s) = JStr s"

fun json_of_vec :: "vec option \<Rightarrow> json" where
  "json_of_vec None = JNull"
| "json_of_vec (Some v) = JArr (map JNum v)"


text \<open>Sequencing of steps that may raise: the first exception ends the computation.\<close>

definition then_do :: "error + 'a \<Rightarrow> ('a \<Rightarrow> error + 'b) \<Rightarrow> error + 'b" where
  "then_do r f = (case r of Inl e \<Rightarrow> Inl e | Inr x \<Rightarrow> f x)"

text \<open>
  \<open>payload[key]\<close> on a loaded JSON value: a dict keeps the last binding of a repeated key
  and raises \<open>KeyError\<close> on a missing one; every other JSON value raises \<open>TypeError\<close>
  when subscripted with a string.
\<close>

fun getitem :: "json \<Rightarrow> pystr \<Rightarrow> error + json" where
  "getitem (JObj kvs) k = (case map_of (rev kvs) k of None \<Rightarrow> Inl KeyError | Some v \<Rightarrow> Inr v)"
| "getitem j k = Inl TypeError"

section \<open>The columnar adapter: LanceDb\<close>

datatype distance = cosine | l2 | max_inner_product

text \<open>
  A stored row has the three columns of the schema of \<open>_init_table\<close>. A table of the
  database keeps its column names, its rows in the order they were added, and the number
  of times \<open>create_fts_index\<close> has run on it. The database that \<open>self.client\<close> is
  connected to maps table names to tables.
\<close>

record lance_row =
  row_id :: pystr
  vector :: "vec option"
  payload :: jtext

record lance_table =
  schema_names :: "string list"
  rows :: "lance_row list"
  fts_builds :: nat

type_synonym lance_client = "pystr \<rightharpoonup> lance_table"

typedecl reranker

datatype query_arg = QVector vec | QText pystr | QHybrid vec pystr

record lance_query =
  q_query :: query_arg
  q_vector_column_name :: "string option"
  q_query_type :: "string option"
  q_limit :: int
  q_nprobes :: "int option"
  q_reranker :: "reranker option"

text \<open>
  The query engine of the library (ranking, fusion, reranking, truncation) is a parameter:
  it maps a built query and a table to the rows of the resulting frame.
\<close>

type_synonym lance_engine = "lance_query \<Rightarrow> lance_table \<Rightarrow> lance_row list"

text \<open>
  The object passed as \<open>connection\<close>: a table handle of the library, which knows its name
  and its table, or an object of another type, of which only the truth value matters.
  \<open>len\<close> of a table handle is its row count, so an empty table is falsy.
\<close>

datatype py_object = LanceTable pystr lance_table | OtherObject bool

fun truthy :: "py_object \<Rightarrow> bool" where
  "truthy (LanceTable n t) = (rows t \<noteq> [])"
| "truthy (OtherObject b) = b"

text \<open>
  The attributes of a \<open>LanceDb\<close> instance. \<open>connection\<close> is the handle of the table named
  so in the client's database; \<open>id_col\<close> and \<open>vector_col\<close> are \<open>_id\<close> and \<open>_vector_col\<close>.
  Every operation below returns \<open>Inl\<close> when it raises, and then the instance is as it was
  before the call. The client is a connection object and so always truthy in the tests
  \<open>if self.client\<close>; in every instance \<open>_id\<close> is the column \<open>id\<close>, which the filter of
  \<open>doc_exists\<close> compares.
\<close>

record lancedb =
  l_embedder :: embedder
  l_dimensions :: "int option"
  l_distance :: distance
  uri :: pystr
  client :: lance_client
  nprobes :: "int option"
  connection :: pystr
  table_name :: pystr
  vector_col :: string
  id_col :: string
  query_type :: "string option"
  l_reranker :: "reranker option"
  fts_index_exists :: bool

definition empty_table :: lance_table where
  "empty_table = \<lparr>schema_names = [''vector'', ''id'', ''payload''], rows = [], fts_builds = 0\<rparr>"

text \<open>
  \<open>_init_table\<close> sizes the vector column by the length of a test embedding (\<open>len(None)\<close>
  is a \<open>TypeError\<close>) and creates the table in mode "overwrite". It returns the client
  after the creation; the handle it returns is the table's name.
\<close>

definition init_table :: "embedder \<Rightarrow> lance_client \<Rightarrow> pystr \<Rightarrow> error + lance_client" where
  "init_table e cl tname =
     (case get_embedding e (ascii ''test'') of
        None \<Rightarrow> Inl TypeError
      | Some v \<Rightarrow> Inr (cl(tname \<mapsto> empty_table)))"

text \<open>
  \<open>LanceDb.__init__\<close>. \<open>db\<close> is the database that \<open>lancedb.connect(uri)\<close> reaches. In the
  branch of a given connection the last statement reads \<open>self.tbl\<close>, an attribute that
  nothing assigns.
\<close>

definition LanceDb_init ::
  "embedder \<Rightarrow> distance \<Rightarrow> py_object option \<Rightarrow> pystr \<Rightarrow> pystr \<Rightarrow> int option \<Rightarrow>
   string option \<Rightarrow> reranker option \<Rightarrow> lance_client \<Rightarrow> error + lancedb" where
  "LanceDb_init e dst conn u tname np qt rr db =
     (if (case conn of None \<Rightarrow> False | Some c \<Rightarrow> truthy c) then
        (case conn of
           Some (LanceTable n t) \<Rightarrow>
             (case schema_names t of
                [] \<Rightarrow> Inl IndexError
              | vcol # _ \<Rightarrow> Inl AttributeError)
         | _ \<Rightarrow> Inl ValueError)
      else
        then_do (init_table e db tname) (\<lambda>cl.
          Inr \<lparr>l_embedder = e, l_dimensions = dimensions e, l_distance = dst, uri = u,
               client = cl, nprobes = np, connection = tname, table_name = tname,
               vector_col = ''vector'', id_col = ''id'', query_type = qt, l_reranker = rr,
               fts_index_exists = False\<rparr>))"

definition LanceDb_exists :: "lancedb \<Rightarrow> bool" where
  "LanceDb_exists self = (table_name self \<in> dom (client self))"

definition LanceDb_create :: "lancedb \<Rightarrow> error + lancedb" where
  "LanceDb_create self =
     (if \<not> LanceDb_exists self then
        then_do (init_table (l_embedder self) (client self) (table_name self)) (\<lambda>cl.
          Inr (self\<lparr>client := cl, connection := table_name self,
                    id_col := ''id'', vector_col := ''vector''\<rparr>))
      else Inr self)"

definition LanceDb_delete :: "lancedb \<Rightarrow> lancedb" where
  "LanceDb_delete self =
     (if LanceDb_exists self then self\<lparr>client := (client self)(table_name self := None)\<rparr> else self)"

definition LanceDb_get_count :: "lancedb \<Rightarrow> error + int" where
  "LanceDb_get_count self =
     (if LanceDb_exists self then
        (case client self (table_name self) of
           None \<Rightarrow> Inl TableNotFound
         | Some t \<Rightarrow> Inr (int (length (rows t))))
      else Inr 0)"


subsection \<open>Write path\<close>

text \<open>
  One pass of the loop of \<open>insert\<close>: embed the document, clean its content, hash it, and
  build the dict that is appended to \<open>data\<close>.
\<close>

definition insert_record :: "hexdigest \<Rightarrow> embedder \<Rightarrow> document \<Rightarrow> lance_row" where
  "insert_record md5 e document0 =
     (let document = embed e document0;
          cleaned_content = replace_nul (content document);
          doc_id = md5 (encode cleaned_content);
          payload = JObj [(ascii ''name'', json_of_str (name document)),
                          (ascii ''meta_data'', meta_data document),
                          (ascii ''content'', JStr cleaned_content),
                          (ascii ''usage'', usage document)]
      in \<lparr>row_id = doc_id, vector = embedding document, payload = json_dumps payload\<rparr>)"

fun insert_loop :: "hexdigest \<Rightarrow> embedder \<Rightarrow> document list \<Rightarrow> lance_row list \<Rightarrow> lance_row list" where
  "insert_loop md5 e [] data = data"
| "insert_loop md5 e (document # documents) data =
     insert_loop md5 e documents (data @ [insert_record md5 e document])"

text \<open>\<open>self.connection.add(data)\<close> appends the rows to the table behind the handle.\<close>

definition connection_add :: "lancedb \<Rightarrow> lance_row list \<Rightarrow> error + lancedb" where
  "connection_add self data =
     (case client self (connection self) of
        None \<Rightarrow> Inl TableNotFound
      | Some t \<Rightarrow>
          Inr (self\<lparr>client := (client self)(connection self \<mapsto> t\<lparr>rows := rows t @ data\<rparr>)\<rparr>))"

type_synonym filters = "(pystr \<times> json) list"

definition LanceDb_insert ::
  "hexdigest \<Rightarrow> lancedb \<Rightarrow> document list \<Rightarrow> filters option \<Rightarrow> error + lancedb" where
  "LanceDb_insert md5 self documents fltrs =
     connection_add self (insert_loop md5 (l_embedder self) documents [])"

definition LanceDb_upsert ::
  "hexdigest \<Rightarrow> lancedb \<Rightarrow> document list \<Rightarrow> filters option \<Rightarrow> error + lancedb" where
  "LanceDb_upsert md5 self documents fltrs = LanceDb_insert md5 self documents None"

definition LanceDb_doc_exists :: "hexdigest \<Rightarrow> lancedb \<Rightarrow> document \<Rightarrow> error + bool" where
  "LanceDb_doc_exists md5 self document =
     (let cleaned_content = replace_nul (content document);
          doc_id = md5 (encode cleaned_content)
      in case client self (connection self) of
           None \<Rightarrow> Inl TableNotFound
         | Some t \<Rightarrow> Inr (length (filter (\<lambda>r. row_id r = doc_id) (rows t)) > 0))"

subsection \<open>Query path\<close>

text \<open>
  Modelled from the spec: the constructor of \<open>Document\<close> (\<open>phi.document\<close>, not among the
  sources) applied to loaded JSON values. By the data model the name is a text or absent,
  the content a text, the metadata a mapping, the usage a mapping or absent; any other
  value is refused with an exception.
\<close>

fun is_mapping :: "json \<Rightarrow> bool" where
  "is_mapping (JObj kvs) = True"
| "is_mapping j = False"

fun is_text :: "json \<Rightarrow> bool" where
  "is_text (JStr s) = True"
| "is_text j = False"

fun text_of :: "json \<Rightarrow> pystr option" where
  "text_of (JStr s) = Some s"
| "text_of j = None"

definition Document :: "json \<Rightarrow> json \<Rightarrow> json \<Rightarrow> vec option \<Rightarrow> json \<Rightarrow> error + document" where
  "Document n m c emb u =
     (if (n = JNull \<or> is_text n) \<and> is_mapping m \<and> is_text c \<and> (u = JNull \<or> is_mapping u)
      then Inr \<lparr>doc_id = None, name = text_of n, content = the (text_of c), meta_data = m,
                usage = u, embedding = emb\<rparr>
      else Inl ValueError)"

text \<open>The body of the loop of \<open>_build_search_results\<close> for one row of the frame.\<close>

definition build_item :: "lance_row \<Rightarrow> error + document" where
  "build_item item =
     then_do (json_loads (payload item)) (\<lambda>pl.
     then_do (getitem pl (ascii ''name'')) (\<lambda>n.
     then_do (getitem pl (ascii ''meta_data'')) (\<lambda>m.
     then_do (getitem pl (ascii ''content'')) (\<lambda>c.
     then_do (getitem pl (ascii ''usage'')) (\<lambda>u.
       Document n m c (vector item) u)))))"

text \<open>
  The loop runs inside \<open>try\<close>; \<open>search_results\<close> is the list grown so far. An exception
  leaves the loop, is logged by the handler, and the function then returns the list as it
  is. The second component of the result is the logged exception, if any.
\<close>

fun build_loop :: "lance_row list \<Rightarrow> document list \<Rightarrow> document list \<times> error option" where
  "build_loop [] search_results = (search_results, None)"
| "build_loop (item # items) search_results =
     (case build_item item of
        Inl e \<Rightarrow> (search_results, Some e)
      | Inr d \<Rightarrow> build_loop items (search_results @ [d]))"

definition build_search_results :: "lance_row list \<Rightarrow> document list \<times> error option" where
  "build_search_results results = build_loop results []"


text \<open>
  \<open>self.connection.search(...)\<close> followed by \<open>limit\<close>, the optional \<open>nprobes\<close> and
  \<open>rerank\<close>, and \<open>to_pandas()\<close>: the engine runs the query on the table behind the
  handle. \<open>if self.nprobes\<close> is false for \<open>None\<close> and for 0.
\<close>

definition connection_search :: "lance_engine \<Rightarrow> lancedb \<Rightarrow> lance_query \<Rightarrow> error + lance_row list" where
  "connection_search eng self q =
     (case client self (connection self) of
        None \<Rightarrow> Inl TableNotFound
      | Some t \<Rightarrow> Inr (eng q t))"

definition nprobes_arg :: "lancedb \<Rightarrow> int option" where
  "nprobes_arg self =
     (case nprobes self of None \<Rightarrow> None | Some n \<Rightarrow> if n \<noteq> 0 then Some n else None)"

text \<open>\<open>self.connection.create_fts_index("payload", replace=True)\<close>\<close>

definition create_fts_index :: "lancedb \<Rightarrow> error + lancedb" where
  "create_fts_index self =
     (case client self (connection self) of
        None \<Rightarrow> Inl TableNotFound
      | Some t \<Rightarrow>
          Inr (self\<lparr>client := (client self)(connection self \<mapsto>
                              t\<lparr>fts_builds := Suc (fts_builds t)\<rparr>)\<rparr>))"

text \<open>The first three statements shared by \<open>hybrid_search\<close> and \<open>keyword_search\<close>.\<close>

definition ensure_fts_index :: "lancedb \<Rightarrow> error + lancedb" where
  "ensure_fts_index self =
     (if \<not> fts_index_exists self then
        then_do (create_fts_index self) (\<lambda>s. Inr (s\<lparr>fts_index_exists := True\<rparr>))
      else Inr self)"

definition vector_search ::
  "lance_engine \<Rightarrow> lancedb \<Rightarrow> pystr \<Rightarrow> int \<Rightarrow> error + (document list \<times> lancedb)" where
  "vector_search eng self query limit =
     (case get_embedding (l_embedder self) query of
        None \<Rightarrow> Inr ([], self)
      | Some query_embedding \<Rightarrow>
          then_do (connection_search eng self
                     \<lparr>q_query = QVector query_embedding,
                      q_vector_column_name = Some (vector_col self),
                      q_query_type = None, q_limit = limit,
                      q_nprobes = nprobes_arg self, q_reranker = l_reranker self\<rparr>) (\<lambda>results.
            Inr (fst (build_search_results results), self)))"

definition hybrid_search ::
  "lance_engine \<Rightarrow> lancedb \<Rightarrow> pystr \<Rightarrow> int \<Rightarrow> error + (document list \<times> lancedb)" where
  "hybrid_search eng self query limit =
     (case get_embedding (l_embedder self) query of
        None \<Rightarrow> Inr ([], self)
      | Some query_embedding \<Rightarrow>
          then_do (ensure_fts_index self) (\<lambda>self.
          then_do (connection_search eng self
                     \<lparr>q_query = QHybrid query_embedding query,
                      q_vector_column_name = Some (vector_col self),
                      q_query_type = Some ''hybrid'', q_limit = limit,
                      q_nprobes = nprobes_arg self, q_reranker = l_reranker self\<rparr>) (\<lambda>results.
            Inr (fst (build_search_results results), self))))"

definition keyword_search ::
  "lance_engine \<Rightarrow> lancedb \<Rightarrow> pystr \<Rightarrow> int \<Rightarrow> error + (document list \<times> lancedb)" where
  "keyword_search eng self query limit =
     then_do (ensure_fts_index self) (\<lambda>self.
     then_do (connection_search eng self
                \<lparr>q_query = QText query, q_vector_column_name = None,
                 q_query_type = Some ''fts'', q_limit = limit,
                 q_nprobes = None, q_reranker = None\<rparr>) (\<lambda>results.
       Inr (fst (build_search_results results), self)))"

definition LanceDb_search ::
  "lance_engine \<Rightarrow> lancedb \<Rightarrow> pystr \<Rightarrow> int \<Rightarrow> filters option \<Rightarrow>
   error + (document list \<times> lancedb)" where
  "LanceDb_search eng self query limit fltrs =
     (if query_type self = Some ''vector'' then vector_search eng self query limit
      else if query_type self = Some ''hybrid'' then hybrid_search eng self query limit
      else if query_type self = Some ''fts'' then keyword_search eng self query limit
      else Inr ([], self))"

text \<open>
  A caller's sequence of lexical and hybrid queries on one instance. A call that raises
  leaves the instance unchanged, and the caller goes on with the next call.
\<close>

datatype search_call = Fts pystr int | Hybrid pystr int

fun run_call :: "lance_engine \<Rightarrow> lancedb \<Rightarrow> search_call \<Rightarrow> lancedb" where
  "run_call eng self (Fts query limit) =
     (case keyword_search eng self query limit of Inl e \<Rightarrow> self | Inr (docs, self') \<Rightarrow> self')"
| "run_call eng self (Hybrid query limit) =
     (case hybrid_search eng self query limit of Inl e \<Rightarrow> self | Inr (docs, self') \<Rightarrow> self')"

fun run_calls :: "lance_engine \<Rightarrow> lancedb \<Rightarrow> search_call list \<Rightarrow> lancedb" where
  "run_calls eng self [] = self"
| "run_calls eng self (c # cs) = run_calls eng (run_call eng self c) cs"


section \<open>The relational adapter: singlestore\<close>

text \<open>
  An engine is known by the URL it connects to. An attribute of an instance is \<open>Unset\<close>
  until a statement assigns it; reading an unset attribute raises \<open>AttributeError\<close>.
\<close>

datatype engine = Engine pystr

definition create_engine :: "pystr \<Rightarrow> engine" where
  "create_engine url = Engine url"

datatype index = Ivfflat int | HNSW int | OtherIndex

datatype 'a attr = Unset | Assigned 'a

text \<open>
  The attributes of a \<open>singlestore\<close> instance. \<open>table_columns\<close> stands for \<open>self.table\<close>,
  the table definition of \<open>get_table\<close>; \<open>self.metadata\<close> and \<open>self.Session\<close> are fixed by
  \<open>schema\<close> and \<open>db_engine\<close>. \<open>attr_index\<close> is the attribute \<open>index\<close>, which \<open>search\<close>
  reads.
\<close>

record singlestore =
  collection :: pystr
  schema :: "pystr option"
  db_url :: "pystr option"
  db_engine :: engine
  s_embedder :: embedder
  s_dimensions :: "int option"
  s_distance :: distance
  table_columns :: "string list"
  attr_index :: "index option attr"

definition get_table :: "string list" where
  "get_table = [''id'', ''name'', ''meta_data'', ''content'', ''embedding'', ''usage'',
                ''created_at'', ''updated_at'', ''content_hash'']"

definition singlestore_init ::
  "pystr \<Rightarrow> pystr option \<Rightarrow> pystr option \<Rightarrow> engine option \<Rightarrow> embedder \<Rightarrow> distance \<Rightarrow>
   error + singlestore" where
  "singlestore_init coll sch url eng e dst =
     (let engine0 = (if eng = None \<and> url \<noteq> None then Some (create_engine (the url)) else eng)
      in case engine0 of
           None \<Rightarrow> Inl ValueError
         | Some g \<Rightarrow>
             Inr \<lparr>collection = coll, schema = sch, db_url = url, db_engine = g,
                  s_embedder = e, s_dimensions = dimensions e, s_distance = dst,
                  table_columns = get_table, attr_index = Unset\<rparr>)"

text \<open>
  A value placed in a column by a statement: SQL \<open>NULL\<close>, a text, a text produced by
  \<open>json.dumps\<close>, or the expression \<open>JSON_ARRAY_PACK(:embedding)\<close> with its bound
  parameter, which the server evaluates to a packed vector. A row gives its columns by
  name. The database maps a schema and a table name to the rows of that table.
\<close>

datatype sqlval = SqlNull | SqlStr pystr | SqlJson jtext | JSON_ARRAY_PACK jtext

type_synonym sql_row = "(string \<times> sqlval) list"

type_synonym sql_db = "(pystr option \<times> pystr) \<rightharpoonup> sql_row list"

definition cell :: "sql_row \<Rightarrow> string \<Rightarrow> sqlval" where
  "cell r c = (case map_of r c of None \<Rightarrow> SqlNull | Some v \<Rightarrow> v)"

definition table_key :: "singlestore \<Rightarrow> pystr option \<times> pystr" where
  "table_key self = (schema self, collection self)"

definition table_exists :: "singlestore \<Rightarrow> sql_db \<Rightarrow> bool" where
  "table_exists self db = (db (table_key self) \<noteq> None)"

definition singlestore_create :: "singlestore \<Rightarrow> sql_db \<Rightarrow> sql_db" where
  "singlestore_create self db =
     (if \<not> table_exists self db then db(table_key self \<mapsto> []) else db)"

definition singlestore_delete :: "singlestore \<Rightarrow> sql_db \<Rightarrow> sql_db" where
  "singlestore_delete self db =
     (if table_exists self db then db(table_key self := None) else db)"

definition singlestore_exists :: "singlestore \<Rightarrow> sql_db \<Rightarrow> bool" where
  "singlestore_exists self db = table_exists self db"

text \<open>
  A \<open>SELECT\<close> on a table that the database does not have is refused by the server, and
  \<open>sess.execute\<close> raises. \<open>count(name)\<close> counts the rows whose name is not \<open>NULL\<close>; the
  scalar of a count is never \<open>None\<close>.
\<close>

definition singlestore_get_count :: "singlestore \<Rightarrow> sql_db \<Rightarrow> error + int" where
  "singlestore_get_count self db =
     (case db (table_key self) of
        None \<Rightarrow> Inl ProgrammingError
      | Some rs \<Rightarrow>
          (let result = Some (int (length (filter (\<lambda>r. cell r ''name'' \<noteq> SqlNull) rs)))
           in case result of Some n \<Rightarrow> Inr n | None \<Rightarrow> Inr 0))"

definition select_first :: "singlestore \<Rightarrow> sql_db \<Rightarrow> string \<Rightarrow> pystr \<Rightarrow> error + bool" where
  "select_first self db col v =
     (case db (table_key self) of
        None \<Rightarrow> Inl ProgrammingError
      | Some rs \<Rightarrow> Inr (filter (\<lambda>r. cell r col = SqlStr v) rs \<noteq> []))"

definition singlestore_doc_exists ::
  "hexdigest \<Rightarrow> singlestore \<Rightarrow> document \<Rightarrow> sql_db \<Rightarrow> error + bool" where
  "singlestore_doc_exists md5 self document db =
     (let cleaned_content = replace_nul (content document)
      in select_first self db ''content_hash'' (md5 (encode cleaned_content)))"

definition name_exists :: "singlestore \<Rightarrow> pystr \<Rightarrow> sql_db \<Rightarrow> error + bool" where
  "name_exists self nm db = select_first self db ''name'' nm"

definition id_exists :: "singlestore \<Rightarrow> pystr \<Rightarrow> sql_db \<Rightarrow> error + bool" where
  "id_exists self i db = select_first self db ''id'' i"

subsection \<open>Write path\<close>

text \<open>
  A statement of the write path is what \<open>mysql.insert(self.table).values(...)\<close> builds:
  an \<open>INSERT\<close> with its values. The session receives \<open>execute\<close> and \<open>commit\<close> calls; no
  call's result is used by the adapter, so a write is described by the list of calls it
  makes in order, of which the session runs a prefix if one raises.
\<close>

datatype statement = Insert "(string \<times> sqlval) list"

datatype session_call = Execute statement | Commit

fun sql_of_str :: "pystr option \<Rightarrow> sqlval" where
  "sql_of_str None = SqlNull"
| "sql_of_str (Some s) = SqlStr s"

text \<open>\<open>document.id or content_hash\<close>: an absent or empty id gives the content hash.\<close>

definition id_or :: "pystr option \<Rightarrow> pystr \<Rightarrow> pystr" where
  "id_or i content_hash = (case i of None \<Rightarrow> content_hash | Some s \<Rightarrow> if s = [] then content_hash else s)"

definition insert_statement :: "hexdigest \<Rightarrow> embedder \<Rightarrow> document \<Rightarrow> statement" where
  "insert_statement md5 e document0 =
     (let document = embed e document0;
          cleaned_content = replace_nul (content document);
          content_hash = md5 (encode cleaned_content);
          id0 = id_or (doc_id document) content_hash;
          meta_data_json = json_dumps (meta_data document);
          usage_json = json_dumps (usage document);
          embedding_json = json_dumps (json_of_vec (embedding document));
          json_array_pack = JSON_ARRAY_PACK embedding_json
      in Insert [(''id'', SqlStr id0),
                 (''name'', sql_of_str (name document)),
                 (''meta_data'', SqlJson meta_data_json),
                 (''content'', SqlStr cleaned_content),
                 (''embedding'', json_array_pack),
                 (''usage'', SqlJson usage_json),
                 (''content_hash'', SqlStr content_hash)])"

text \<open>
  The statement that \<open>upsert\<close> builds first, with \<open>mysql.insert(self.table).values(...)\<close>:
  the packing expression is computed as in \<open>insert\<close>, but the value given for
  \<open>embedding\<close> is the JSON text.
\<close>

definition upsert_statement :: "hexdigest \<Rightarrow> embedder \<Rightarrow> document \<Rightarrow> statement" where
  "upsert_statement md5 e document0 =
     (let document = embed e document0;
          cleaned_content = replace_nul (content document);
          content_hash = md5 (encode cleaned_content);
          id0 = id_or (doc_id document) content_hash;
          meta_data_json = json_dumps (meta_data document);
          usage_json = json_dumps (usage document);
          embedding_json = json_dumps (json_of_vec (embedding document));
          json_array_pack = JSON_ARRAY_PACK embedding_json
      in Insert [(''id'', SqlStr id0),
                 (''name'', sql_of_str (name document)),
                 (''meta_data'', SqlJson meta_data_json),
                 (''content'', SqlStr cleaned_content),
                 (''embedding'', SqlJson embedding_json),
                 (''usage'', SqlJson usage_json),
                 (''content_hash'', SqlStr content_hash)])"

text \<open>
  \<open>upsert\<close> then evaluates \<open>stmt.on_conflict_do_update(index_elements=["id"], set_=...)\<close>
  with \<open>stmt.excluded\<close>. The statement is the insert construct of the MySQL dialect,
  which has neither attribute (it offers \<open>on_duplicate_key_update\<close> and \<open>inserted\<close>), so
  the read of \<open>stmt.on_conflict_do_update\<close> raises \<open>AttributeError\<close> whatever the
  statement is.
\<close>

definition on_conflict_do_update :: "statement \<Rightarrow> error + statement" where
  "on_conflict_do_update stmt = Inl AttributeError"

text \<open>
  The loop of \<open>insert\<close>: execute the document's statement, count it, commit and reset
  the counter once it has reached \<open>batch_size\<close>; after the loop, commit if the counter is
  positive.
\<close>

fun write_loop :: "(document \<Rightarrow> statement) \<Rightarrow> int \<Rightarrow> document list \<Rightarrow> int \<Rightarrow> session_call list" where
  "write_loop stmt batch_size [] counter = (if counter > 0 then [Commit] else [])"
| "write_loop stmt batch_size (document # documents) counter =
     Execute (stmt document) #
       (if counter + 1 \<ge> batch_size then Commit # write_loop stmt batch_size documents 0
        else write_loop stmt batch_size documents (counter + 1))"

text \<open>An omitted \<open>batch_size\<close> (\<open>None\<close> here) takes the default of the signature.\<close>

definition singlestore_insert ::
  "hexdigest \<Rightarrow> singlestore \<Rightarrow> document list \<Rightarrow> int option \<Rightarrow> session_call list" where
  "singlestore_insert md5 self documents batch_size =
     write_loop (insert_statement md5 (s_embedder self))
       (case batch_size of None \<Rightarrow> 10 | Some n \<Rightarrow> n) documents 0"

text \<open>
  The loop of \<open>upsert\<close> has the same counting and commits, but each pass first turns the
  document's statement into its on-conflict form, and an exception there ends the write.
  The result is the list of session calls made and the exception that ended the write,
  if any.
\<close>

fun prepend :: "session_call \<Rightarrow> session_call list \<times> error option \<Rightarrow> session_call list \<times> error option" where
  "prepend c (cs, r) = (c # cs, r)"

fun upsert_loop ::
  "(document \<Rightarrow> statement) \<Rightarrow> int \<Rightarrow> document list \<Rightarrow> int \<Rightarrow> session_call list \<times> error option" where
  "upsert_loop stmt batch_size [] counter = (if counter > 0 then [Commit] else [], None)"
| "upsert_loop stmt batch_size (document # documents) counter =
     (case on_conflict_do_update (stmt document) of
        Inl err \<Rightarrow> ([], Some err)
      | Inr st \<Rightarrow>
          prepend (Execute st)
            (if counter + 1 \<ge> batch_size
             then prepend Commit (upsert_loop stmt batch_size documents 0)
             else upsert_loop stmt batch_size documents (counter + 1)))"

definition singlestore_upsert ::
  "hexdigest \<Rightarrow> singlestore \<Rightarrow> document list \<Rightarrow> int option \<Rightarrow>
   session_call list \<times> error option" where
  "singlestore_upsert md5 self documents batch_size =
     upsert_loop (upsert_statement md5 (s_embedder self))
       (case batch_size of None \<Rightarrow> 20 | Some n \<Rightarrow> n) documents 0"


subsection \<open>Query path\<close>

text \<open>
  The \<open>SELECT\<close> that \<open>search\<close> builds: the five result columns, an equality for each
  filter whose key names a column of the table, the ordering chosen by the distance
  (with the bound parameter of the cosine case), and the limit. For the distances \<open>l2\<close>
  and \<open>max_inner_product\<close> the code reads \<open>self.table.c.embedding.max_inner_product\<close>;
  the column is a \<open>BLOB\<close> column, which has no such attribute, so building the statement
  raises \<open>AttributeError\<close>.
\<close>

datatype order_by = DotProductDesc jtext

record select_stmt =
  sel_columns :: "string list"
  sel_where :: "(pystr \<times> json) list"
  sel_order_by :: "order_by list"
  sel_limit :: int

definition search_statement ::
  "singlestore \<Rightarrow> vec \<Rightarrow> int \<Rightarrow> filters option \<Rightarrow> error + select_stmt" where
  "search_statement self query_embedding limit fltrs =
     (let wh = (case fltrs of
                  None \<Rightarrow> []
                | Some kvs \<Rightarrow> filter (\<lambda>(key, v). key \<in> set (map ascii (table_columns self))) kvs)
      in if s_distance self = l2 then Inl AttributeError
         else if s_distance self = max_inner_product then Inl AttributeError
         else Inr \<lparr>sel_columns = [''name'', ''meta_data'', ''content'', ''embedding'', ''usage''],
                   sel_where = wh,
                   sel_order_by =
                     (if s_distance self = cosine
                      then [DotProductDesc (json_dumps (json_of_vec (Some query_embedding)))]
                      else []),
                   sel_limit = limit\<rparr>)"

text \<open>
  A fetched row, and the server's query evaluation as a parameter: it is given the
  session setting made for the index (if any), the statement and the table's rows.
\<close>

record neighbor =
  n_name :: "pystr option"
  n_meta_data :: "jtext option"
  n_content :: "pystr option"
  n_embedding :: "jtext option"
  n_usage :: "jtext option"

type_synonym sql_engine = "index option \<Rightarrow> select_stmt \<Rightarrow> sql_row list \<Rightarrow> neighbor list"

text \<open>\<open>json.loads(x) if x else default\<close>: \<open>None\<close> and the empty text are falsy.\<close>

definition loads_or :: "jtext option \<Rightarrow> json \<Rightarrow> error + json" where
  "loads_or x dflt =
     (case x of
        None \<Rightarrow> Inr dflt
      | Some t \<Rightarrow> if t = Invalid [] then Inr dflt else json_loads t)"

fun num_of :: "json \<Rightarrow> real option" where
  "num_of (JNum r) = Some r"
| "num_of j = None"

fun vec_of_json :: "json \<Rightarrow> error + vec option" where
  "vec_of_json JNull = Inr None"
| "vec_of_json (JArr js) =
     (if list_all (\<lambda>j. num_of j \<noteq> None) js then Inr (Some (map (\<lambda>j. the (num_of j)) js))
      else Inl ValueError)"
| "vec_of_json j = Inl ValueError"

definition neighbor_document :: "neighbor \<Rightarrow> error + document" where
  "neighbor_document nb =
     then_do (loads_or (n_meta_data nb) (JObj [])) (\<lambda>meta_data_dict.
     then_do (loads_or (n_usage nb) (JObj [])) (\<lambda>usage_dict.
     then_do (loads_or (n_embedding nb) (JArr [])) (\<lambda>embedding_list.
     then_do (vec_of_json embedding_list) (\<lambda>emb.
       Document (json_of_str (n_name nb)) meta_data_dict (json_of_str (n_content nb))
         emb usage_dict))))"

fun search_loop :: "neighbor list \<Rightarrow> document list \<Rightarrow> error + document list" where
  "search_loop [] search_results = Inr search_results"
| "search_loop (nb # neighbors) search_results =
     then_do (neighbor_document nb) (\<lambda>d. search_loop neighbors (search_results @ [d]))"

definition session_setting :: "index option \<Rightarrow> index option" where
  "session_setting idx =
     (case idx of
        Some (Ivfflat n) \<Rightarrow> Some (Ivfflat n)
      | Some (HNSW n) \<Rightarrow> Some (HNSW n)
      | _ \<Rightarrow> None)"

definition singlestore_search ::
  "sql_engine \<Rightarrow> singlestore \<Rightarrow> pystr \<Rightarrow> int \<Rightarrow> filters option \<Rightarrow> sql_db \<Rightarrow>
   error + document list" where
  "singlestore_search eng self query limit fltrs db =
     (case get_embedding (s_embedder self) query of
        None \<Rightarrow> Inr []
      | Some query_embedding \<Rightarrow>
          then_do (search_statement self query_embedding limit fltrs) (\<lambda>stmt.
            case attr_index self of
              Unset \<Rightarrow> Inl AttributeError
            | Assigned idx \<Rightarrow>
                (case db (table_key self) of
                   None \<Rightarrow> Inl ProgrammingError
                 | Some rs \<Rightarrow> search_loop (eng (session_setting idx) stmt rs) [])))"


section \<open>Notions used by the properties\<close>

definition values_of :: "statement \<Rightarrow> sql_row" where
  "values_of st = (case st of Insert vs \<Rightarrow> vs)"

fun executed :: "session_call list \<Rightarrow> statement list" where
  "executed [] = []"
| "executed (Execute st # cs) = st # executed cs"
| "executed (Commit # cs) = executed cs"

fun commits :: "session_call list \<Rightarrow> nat" where
  "commits [] = 0"
| "commits (Execute st # cs) = commits cs"
| "commits (Commit # cs) = Suc (commits cs)"

text \<open>
  The batching of the specification: the statements are cut into consecutive groups of
  \<open>n\<close> (the last group may be shorter), and each group is executed and then committed.
\<close>

function batches :: "nat \<Rightarrow> 'a list \<Rightarrow> 'a list list" where
  "batches n xs = (if n = 0 \<or> xs = [] then [] else take n xs # batches n (drop n xs))"
  by pat_completeness auto
termination
  by (relation "measure (\<lambda>(n, xs). length xs)") auto

definition commit_every :: "nat \<Rightarrow> statement list \<Rightarrow> session_call list" where
  "commit_every n stmts = concat (map (\<lambda>b. map Execute b @ [Commit]) (batches n stmts))"

text \<open>The rows of the adapter's table that carry a given identifier, and the number of
  index builds its table has seen.\<close>

definition rows_with_id :: "lancedb \<Rightarrow> pystr \<Rightarrow> lance_row list" where
  "rows_with_id self i =
     (case client self (connection self) of
        None \<Rightarrow> []
      | Some t \<Rightarrow> filter (\<lambda>r. row_id r = i) (rows t))"

definition index_builds :: "lancedb \<Rightarrow> nat" where
  "index_builds self =
     (case client self (connection self) of None \<Rightarrow> 0 | Some t \<Rightarrow> fts_builds t)"

text \<open>A call reaches the index construction when the table is there and, for a hybrid
  query, the provider returns an embedding of the query.\<close>

fun reaches_index :: "lancedb \<Rightarrow> search_call \<Rightarrow> bool" where
  "reaches_index self (Fts query limit) = (client self (connection self) \<noteq> None)"
| "reaches_index self (Hybrid query limit) =
     (client self (connection self) \<noteq> None \<and> get_embedding (l_embedder self) query \<noteq> None)"

definition decodes :: "lance_row \<Rightarrow> bool" where
  "decodes item = (case build_item item of Inl e \<Rightarrow> False | Inr d \<Rightarrow> True)"


section \<open>Example inputs\<close>

text \<open>A stand-in for the digest, an embedding provider that knows two texts, documents,
  and a \<open>LanceDb\<close> instance as \<open>__init__\<close> leaves it on an empty database.\<close>

definition toy_md5 :: hexdigest where
  "toy_md5 bs = map (\<lambda>b. 48 + b mod 10) bs"

definition test_embedder :: embedder where
  "test_embedder =
     \<lparr>get_embedding = (\<lambda>s. if s = ascii ''test'' \<or> s = ascii ''fox''
                              then Some [1, 0, 0] else None),
      dimensions = Some 3\<rparr>"

definition fox :: document where
  "fox = \<lparr>doc_id = None, name = Some (ascii ''a''), content = ascii ''fox'',
          meta_data = JObj [], usage = JNull, embedding = None\<rparr>"

definition fox_nul :: document where
  "fox_nul = fox\<lparr>content := ascii ''a'' @ [0] @ ascii ''fox''\<rparr>"

definition fox_rep :: document where
  "fox_rep = fox\<lparr>content := ascii ''a'' @ [65533] @ ascii ''fox'', name := None\<rparr>"

definition fresh :: lancedb where
  "fresh = \<lparr>l_embedder = test_embedder, l_dimensions = Some 3, l_distance = cosine,
            uri = ascii ''/tmp/lancedb'', client = [ascii ''phi'' \<mapsto> empty_table],
            nprobes = None, connection = ascii ''phi'', table_name = ascii ''phi'',
            vector_col = ''vector'', id_col = ''id'', query_type = Some ''fts'',
            l_reranker = None, fts_index_exists = False\<rparr>"

definition mute :: document where
  "mute = fox\<lparr>content := ascii ''zzz''\<rparr>"

definition three_docs :: "document list" where
  "three_docs = [fox, mute, fox]"


definition bad_row :: lance_row where
  "bad_row = \<lparr>row_id = ascii ''x'', vector = None, payload = Invalid (ascii ''{'')\<rparr>"

definition good_row :: lance_row where
  "good_row = insert_record toy_md5 test_embedder fox"

definition good_doc :: document where
  "good_doc = fox\<lparr>embedding := Some [1, 0, 0]\<rparr>"

text \<open>A \<open>singlestore\<close> instance as \<open>__init__\<close> leaves it, and stand-ins for the two query
  engines.\<close>

definition s2 :: singlestore where
  "s2 = \<lparr>collection = ascii ''docs'', schema = Some (ascii ''ai''),
          db_url = Some (ascii ''mysql://h/db''), db_engine = Engine (ascii ''mysql://h/db''),
          s_embedder = test_embedder, s_dimensions = Some 3, s_distance = cosine,
          table_columns = get_table, attr_index = Unset\<rparr>"

definition all_rows :: lance_engine where
  "all_rows q t = rows t"

definition no_rows :: sql_engine where
  "no_rows idx st rs = []"

declare batches.simps [simp del]

section \<open>Content identity\<close>

text \<open>
  C1. Two documents whose contents are identical after NUL replacement get the same
  content identifier on both backends: the row id that the columnar \<open>insert\<close> writes and
  the key that its \<open>doc_exists\<close> looks up, and the \<open>content_hash\<close> that the relational
  \<open>insert\<close> and \<open>upsert\<close> put in their values and that its \<open>doc_exists\<close> looks up. The identifier is
  the digest of the encoded cleaned content and depends on nothing else.
\<close>

theorem content_identifier_of_cleaned_content:
  assumes "replace_nul (content d1) = replace_nul (content d2)"
  shows "row_id (insert_record md5 e d1) = row_id (insert_record md5 e d2)
       \<and> LanceDb_doc_exists md5 self d1 = LanceDb_doc_exists md5 self d2
       \<and> cell (values_of (insert_statement md5 e d1)) ''content_hash''
           = cell (values_of (insert_statement md5 e d2)) ''content_hash''
       \<and> cell (values_of (upsert_statement md5 e d1)) ''content_hash''
           = cell (values_of (upsert_statement md5 e d2)) ''content_hash''
       \<and> singlestore_doc_exists md5 s d1 db = singlestore_doc_exists md5 s d2 db
       \<and> row_id (insert_record md5 e d1) = md5 (encode (replace_nul (content d1)))
       \<and> cell (values_of (insert_statement md5 e d1)) ''content_hash''
           = SqlStr (md5 (encode (replace_nul (content d1))))"
  using assms
  by (simp add: insert_record_def LanceDb_doc_exists_def insert_statement_def
      upsert_statement_def singlestore_doc_exists_def values_of_def cell_def embed_def Let_def)

theorem content_identifier_of_cleaned_content_witness:
  "replace_nul (content fox_nul) = replace_nul (content fox_rep)
   \<and> row_id (insert_record toy_md5 test_embedder fox_nul)
       = row_id (insert_record toy_md5 test_embedder fox_rep)
   \<and> content fox_nul \<noteq> content fox_rep"
  using content_identifier_of_cleaned_content [of fox_nul fox_rep toy_md5 test_embedder]
  by (simp add: fox_nul_def fox_rep_def fox_def replace_nul_def ascii_def)

section \<open>The columnar write path\<close>

lemma insert_loop_map:
  "insert_loop md5 e documents data = data @ map (insert_record md5 e) documents"
  by (induction documents arbitrary: data) simp_all

lemma LanceDb_insert_rows:
  assumes "client self (connection self) = Some t"
  shows "LanceDb_insert md5 self documents fltrs =
    Inr (self\<lparr>client := (client self)(connection self \<mapsto>
           t\<lparr>rows := rows t @ map (insert_record md5 (l_embedder self)) documents\<rparr>)\<rparr>)"
  using assms by (simp add: LanceDb_insert_def connection_add_def insert_loop_map)

lemma insert_record_row_id:
  "row_id (insert_record md5 e d) = md5 (encode (replace_nul (content d)))"
  by (simp add: insert_record_def embed_def Let_def)

text \<open>
  C2. On the columnar backend \<open>upsert\<close> is \<open>insert\<close>. On an existing table, two calls of
  \<open>upsert([d])\<close> succeed and append two rows, both with the identifier of \<open>d\<close>: the
  table then has two more rows with that identifier than before.
\<close>

theorem LanceDb_upsert_delegates_to_insert:
  assumes "client self (connection self) = Some t"
  shows "LanceDb_upsert md5 self documents fltrs = LanceDb_insert md5 self documents fltrs
       \<and> then_do (LanceDb_upsert md5 self [d] None) (\<lambda>s. LanceDb_upsert md5 s [d] None)
           = Inr (self\<lparr>client := (client self)(connection self \<mapsto>
                   t\<lparr>rows := rows t @ [insert_record md5 (l_embedder self) d,
                                         insert_record md5 (l_embedder self) d]\<rparr>)\<rparr>)
       \<and> row_id (insert_record md5 (l_embedder self) d) = md5 (encode (replace_nul (content d)))
       \<and> (case then_do (LanceDb_upsert md5 self [d] None) (\<lambda>s. LanceDb_upsert md5 s [d] None) of
             Inl err \<Rightarrow> False
           | Inr s \<Rightarrow> length (rows_with_id s (md5 (encode (replace_nul (content d)))))
                      = length (rows_with_id self (md5 (encode (replace_nul (content d))))) + 2)"
proof -
  let ?r = "insert_record md5 (l_embedder self) d"
  let ?s1 = "self\<lparr>client := (client self)(connection self \<mapsto> t\<lparr>rows := rows t @ [?r]\<rparr>)\<rparr>"
  let ?s2 = "self\<lparr>client := (client self)(connection self \<mapsto> t\<lparr>rows := rows t @ [?r, ?r]\<rparr>)\<rparr>"
  have eq: "LanceDb_upsert md5 self documents fltrs = LanceDb_insert md5 self documents fltrs"
    by (simp add: LanceDb_upsert_def LanceDb_insert_def)
  have one: "LanceDb_upsert md5 self [d] None = Inr ?s1"
    using LanceDb_insert_rows [OF assms, of md5 "[d]" None] by (simp add: LanceDb_upsert_def)
  have tbl: "client ?s1 (connection ?s1) = Some (t\<lparr>rows := rows t @ [?r]\<rparr>)" by simp
  have two: "LanceDb_upsert md5 ?s1 [d] None = Inr ?s2"
    using LanceDb_insert_rows [OF tbl, of md5 "[d]" None] by (simp add: LanceDb_upsert_def)
  have both: "then_do (LanceDb_upsert md5 self [d] None) (\<lambda>s. LanceDb_upsert md5 s [d] None)
      = Inr ?s2"
    using one two by (simp add: then_do_def)
  have rid: "row_id ?r = md5 (encode (replace_nul (content d)))"
    by (rule insert_record_row_id)
  have cnt: "length (rows_with_id ?s2 (md5 (encode (replace_nul (content d)))))
      = length (rows_with_id self (md5 (encode (replace_nul (content d))))) + 2"
    using assms rid by (simp add: rows_with_id_def)
  show ?thesis using eq both rid cnt by simp
qed

theorem LanceDb_upsert_delegates_to_insert_witness:
  "client fresh (connection fresh) = Some empty_table
   \<and> (case then_do (LanceDb_upsert toy_md5 fresh [fox] None)
              (\<lambda>s. LanceDb_upsert toy_md5 s [fox] None) of
         Inl err \<Rightarrow> False
       | Inr s \<Rightarrow> length (rows_with_id s (toy_md5 (encode (replace_nul (content fox))))) = 2)"
proof -
  have h: "client fresh (connection fresh) = Some empty_table" by (simp add: fresh_def)
  have z: "rows_with_id fresh (toy_md5 (encode (replace_nul (content fox)))) = []"
    by (simp add: rows_with_id_def fresh_def empty_table_def)
  have c: "case then_do (LanceDb_upsert toy_md5 fresh [fox] None)
              (\<lambda>s. LanceDb_upsert toy_md5 s [fox] None) of
         Inl err \<Rightarrow> False
       | Inr s \<Rightarrow> length (rows_with_id s (toy_md5 (encode (replace_nul (content fox)))))
            = length (rows_with_id fresh (toy_md5 (encode (replace_nul (content fox))))) + 2"
    using LanceDb_upsert_delegates_to_insert [OF h, of toy_md5 "[]" None fox] by blast
  show ?thesis
    using h c unfolding z by (simp split: sum.splits)
qed

section \<open>The relational statements\<close>

lemma upsert_loop_raises:
  "upsert_loop stmt batch_size (d # ds) counter = ([], Some AttributeError)"
  by (simp add: on_conflict_do_update_def)

text \<open>
  C3. The relational \<open>upsert\<close> takes its values through the same embedding, cleaning and
  hashing steps as \<open>insert\<close>, and six of the seven values agree, but it does not do what
  the claim says in two places. The value it gives for \<open>embedding\<close> is the JSON text of
  the embedding, where \<open>insert\<close> gives the packing expression applied to that text
  (\<open>upsert\<close> computes the same expression and leaves it unused). And the on-conflict
  update is never built: for every non-empty list of documents \<open>upsert\<close> raises
  \<open>AttributeError\<close> at the first document, before any statement is executed, so no
  column of any row is updated.
\<close>

theorem upsert_embedding_not_packed:
  "cell (values_of (insert_statement md5 e d)) ''embedding''
     = JSON_ARRAY_PACK (json_dumps (json_of_vec (get_embedding e (content d))))
   \<and> cell (values_of (upsert_statement md5 e d)) ''embedding''
     = SqlJson (json_dumps (json_of_vec (get_embedding e (content d))))
   \<and> cell (values_of (insert_statement md5 e d)) ''embedding''
     \<noteq> cell (values_of (upsert_statement md5 e d)) ''embedding''
   \<and> map (cell (values_of (insert_statement md5 e d)))
         [''id'', ''name'', ''meta_data'', ''content'', ''usage'', ''content_hash'']
     = map (cell (values_of (upsert_statement md5 e d)))
         [''id'', ''name'', ''meta_data'', ''content'', ''usage'', ''content_hash'']
   \<and> on_conflict_do_update (upsert_statement md5 e d) = Inl AttributeError
   \<and> singlestore_upsert md5 self (d # ds) batch_size = ([], Some AttributeError)"
  by (simp add: insert_statement_def upsert_statement_def values_of_def cell_def embed_def Let_def
      on_conflict_do_update_def singlestore_upsert_def upsert_loop_raises)

section \<open>Counting rows of an absent table\<close>

text \<open>
  C4. When the table does not exist, and in particular after \<open>delete()\<close>, the columnar
  \<open>get_count\<close> returns 0, but the relational \<open>get_count\<close> raises: it runs its \<open>SELECT\<close>
  without the existence check that the columnar adapter and its own \<open>delete\<close> make.
\<close>

theorem get_count_without_table:
  "(\<not> table_exists self db \<longrightarrow> singlestore_get_count self db = Inl ProgrammingError)
   \<and> singlestore_get_count self (singlestore_delete self db) = Inl ProgrammingError
   \<and> (\<not> LanceDb_exists l \<longrightarrow> LanceDb_get_count l = Inr 0)
   \<and> LanceDb_get_count (LanceDb_delete l) = Inr 0"
  by (auto simp add: table_exists_def singlestore_get_count_def singlestore_delete_def
      LanceDb_exists_def LanceDb_get_count_def LanceDb_delete_def split: option.splits)

theorem get_count_without_table_witness:
  "\<not> table_exists s2 Map.empty \<and> singlestore_get_count s2 Map.empty = Inl ProgrammingError
   \<and> \<not> LanceDb_exists (LanceDb_delete fresh) \<and> LanceDb_get_count (LanceDb_delete fresh) = Inr 0"
  using get_count_without_table [of s2 Map.empty "LanceDb_delete fresh"]
  by (simp add: table_exists_def LanceDb_exists_def LanceDb_delete_def fresh_def)

section \<open>Decoding query results\<close>

lemma build_loop_prefix:
  "build_loop results acc =
     (acc @ map (\<lambda>r. projr (build_item r)) (takeWhile decodes results),
      case dropWhile decodes results of [] \<Rightarrow> None | r # rs \<Rightarrow> Some (projl (build_item r)))"
  by (induction results arbitrary: acc) (auto simp add: decodes_def split: sum.splits)

text \<open>
  C5, as amended. When the decoding of some row fails, the columnar result decoding
  returns the documents of the rows before the first failing row, in order, and logs that
  row's exception; the failing row and all rows after it are dropped. The result is
  empty only when the first row fails (or there are no rows).
\<close>

theorem build_search_results_keeps_prefix:
  "build_search_results results =
     (map (\<lambda>r. projr (build_item r)) (takeWhile decodes results),
      case dropWhile decodes results of [] \<Rightarrow> None | r # rs \<Rightarrow> Some (projl (build_item r)))"
  by (simp add: build_search_results_def build_loop_prefix)

lemma good_row_decodes: "build_item good_row = Inr good_doc"
  by (simp add: good_row_def good_doc_def fox_def build_item_def insert_record_def embed_def
      test_embedder_def json_dumps_def then_do_def Document_def Let_def ascii_def replace_nul_def)

lemma bad_row_fails: "build_item bad_row = Inl JSONDecodeError"
  by (simp add: bad_row_def build_item_def then_do_def)

text \<open>
  C5 as stated fails: of two rows of which the second does not decode, the first row's
  document is returned, not the empty list.
\<close>

theorem build_search_results_partial_counterexample:
  "build_item bad_row = Inl JSONDecodeError
   \<and> build_search_results [good_row, bad_row] = ([good_doc], Some JSONDecodeError)
   \<and> fst (build_search_results [good_row, bad_row]) \<noteq> []"
  by (simp add: build_search_results_def good_row_decodes bad_row_fails)

section \<open>The relational write path\<close>

lemma executed_write_loop: "executed (write_loop stmt n documents c) = map stmt documents"
  by (induction documents arbitrary: c) simp_all





subsection \<open>Batched commits\<close>

lemma batches_Nil: "batches n [] = []"
  by (simp add: batches.simps)

lemma batches_short: "0 < n \<Longrightarrow> xs \<noteq> [] \<Longrightarrow> length xs \<le> n \<Longrightarrow> batches n xs = [xs]"
  by (subst batches.simps) (simp add: batches_Nil)

lemma batches_full: "0 < n \<Longrightarrow> length xs = n \<Longrightarrow> batches n (xs @ ys) = xs # batches n ys"
  by (subst batches.simps) auto

lemma commit_every_Nil: "commit_every n [] = []"
  by (simp add: commit_every_def batches_Nil)

lemma commit_every_short:
  "0 < n \<Longrightarrow> xs \<noteq> [] \<Longrightarrow> length xs \<le> n \<Longrightarrow> commit_every n xs = map Execute xs @ [Commit]"
  by (simp add: commit_every_def batches_short)

lemma commit_every_full:
  "0 < n \<Longrightarrow> length xs = n \<Longrightarrow>
   commit_every n (xs @ ys) = map Execute xs @ Commit # commit_every n ys"
  by (simp add: commit_every_def batches_full)

lemma write_loop_commit_every:
  assumes "0 < n"
  shows "0 \<le> c \<Longrightarrow> c < n \<Longrightarrow> length pre = nat c \<Longrightarrow>
     map Execute pre @ write_loop stmt n documents c
       = commit_every (nat n) (pre @ map stmt documents)"
proof (induction documents arbitrary: c pre)
  case Nil
  show ?case
  proof (cases "pre = []")
    case True
    with Nil show ?thesis by (simp add: commit_every_Nil)
  next
    case False
    with Nil have "0 < c" by (cases "c = 0") auto
    moreover have "commit_every (nat n) pre = map Execute pre @ [Commit]"
      using False Nil assms by (intro commit_every_short) auto
    ultimately show ?thesis by simp
  qed
next
  case (Cons d ds)
  show ?case
  proof (cases "c + 1 \<ge> n")
    case True
    then have len: "length (pre @ [stmt d]) = nat n" using Cons.prems by simp
    have "map Execute [] @ write_loop stmt n ds 0 = commit_every (nat n) ([] @ map stmt ds)"
      using assms by (intro Cons.IH) auto
    then have rest: "write_loop stmt n ds 0 = commit_every (nat n) (map stmt ds)" by simp
    have "commit_every (nat n) ((pre @ [stmt d]) @ map stmt ds)
        = map Execute (pre @ [stmt d]) @ Commit # commit_every (nat n) (map stmt ds)"
      using assms len by (intro commit_every_full) auto
    with True rest show ?thesis by simp
  next
    case False
    have "map Execute (pre @ [stmt d]) @ write_loop stmt n ds (c + 1)
        = commit_every (nat n) ((pre @ [stmt d]) @ map stmt ds)"
      using False Cons.prems by (intro Cons.IH) auto
    with False show ?thesis by simp
  qed
qed

lemma commits_append: "commits (xs @ ys) = commits xs + commits ys"
  by (induction xs rule: commits.induct) simp_all

lemma commits_map_Execute: "commits (map Execute xs) = 0"
  by (induction xs) simp_all

lemma commits_concat: "commits (concat (map (\<lambda>b. map Execute b @ [Commit]) bs)) = length bs"
  by (induction bs) (simp_all add: commits_append commits_map_Execute)

lemma commits_commit_every: "commits (commit_every n xs) = length (batches n xs)"
  by (simp add: commit_every_def commits_concat)

lemma length_batches: "0 < n \<Longrightarrow> length (batches n xs) = (length xs + n - 1) div n"
proof (induction n xs rule: batches.induct)
  case (1 n xs)
  show ?case
  proof (cases "xs = []")
    case True
    with 1 show ?thesis by (simp add: batches_Nil)
  next
    case False
    have "length (batches n xs) = Suc (length (batches n (drop n xs)))"
      using False 1 by (subst batches.simps) simp
    also have "\<dots> = Suc ((length (drop n xs) + n - 1) div n)"
      using 1 False by simp
    also have "\<dots> = (length xs + n - 1) div n"
    proof (cases "n \<le> length xs")
      case True
      then have "length xs + n - 1 = (length xs - n + n - 1) + n" using 1 by simp
      then have "(length xs + n - 1) div n = Suc ((length xs - n + n - 1) div n)"
        using 1 by (metis div_add_self2 Suc_eq_plus1 less_numeral_extra(3))
      then show ?thesis by simp
    next
      case F: False
      obtain k where k: "length xs = Suc k" using False by (cases xs) auto
      with F have "n * 1 \<le> length xs + n - 1" and "length xs + n - 1 < n * Suc 1"
        by simp_all
      then have "(length xs + n - 1) div n = 1" by (rule div_nat_eqI)
      with F show ?thesis by simp
    qed
    finally show ?thesis .
  qed
qed

lemma ceil_div: 
  assumes "0 < (n::nat)" shows "int ((m + n - 1) div n) = \<lceil>real m / real n\<rceil>"
proof -
  let ?q = "(m + n - 1) div n"
  have a: "?q * n \<le> m + n - 1" by simp
  have b: "m + n - 1 < (?q + 1) * n" using assms
    by (metis Suc_eq_plus1 dividend_less_div_times mult.commute mult_Suc)
  have c: "m \<le> ?q * n" using b assms by simp
  have d: "?q * n < m + n" using a assms by linarith
  have c': "real m \<le> real ?q * real n"
    using c by (metis of_nat_le_iff of_nat_mult)
  have d': "real ?q * real n < real m + real n"
    using d by (metis of_nat_less_iff of_nat_mult of_nat_add)
  have n': "0 < real n" using assms by simp
  have up: "real m / real n \<le> of_int (int ?q)"
    using c' n' by (simp add: pos_divide_le_eq)
  have "(real ?q - 1) * real n < real m" using d' by (simp add: algebra_simps)
  then have lo: "of_int (int ?q) - 1 < real m / real n"
    using n' by (simp add: pos_less_divide_eq)
  show ?thesis using ceiling_unique [OF lo up] by simp
qed

text \<open>
  C7. With a batch size \<open>N\<close> of at least 1, the relational \<open>insert\<close> over \<open>M\<close>
  documents executes one statement per document in input order and commits after every
  \<open>N\<close> documents and once more for a remainder: the calls are those of \<open>commit_every\<close>,
  and the number of commits is \<open>M\<close> divided by \<open>N\<close>, rounded up. The default batch size
  is 10 for \<open>insert\<close> and 20 for \<open>upsert\<close>. The relational \<open>upsert\<close> does not do so:
  over a non-empty list it raises \<open>AttributeError\<close> at the first document, having
  executed and committed nothing; over the empty list it makes no call.
\<close>

theorem write_path_batched_commits:
  assumes "1 \<le> N"
  shows "singlestore_insert md5 self documents (Some N)
           = commit_every (nat N) (map (insert_statement md5 (s_embedder self)) documents)
       \<and> executed (singlestore_insert md5 self documents (Some N))
           = map (insert_statement md5 (s_embedder self)) documents
       \<and> commits (singlestore_insert md5 self documents (Some N))
           = (length documents + nat N - 1) div nat N
       \<and> int (commits (singlestore_insert md5 self documents (Some N)))
           = \<lceil>real (length documents) / real_of_int N\<rceil>
       \<and> singlestore_insert md5 self documents None = singlestore_insert md5 self documents (Some 10)
       \<and> singlestore_upsert md5 self documents None = singlestore_upsert md5 self documents (Some 20)
       \<and> singlestore_upsert md5 self (d # ds) (Some N) = ([], Some AttributeError)
       \<and> singlestore_upsert md5 self [] (Some N) = ([], None)"
proof -
  have n: "0 < N" "0 < nat N" using assms by simp_all
  have loop: "write_loop stmt N documents 0 = commit_every (nat N) (map stmt documents)" for stmt
    using write_loop_commit_every [OF n(1), of 0 "[]" stmt documents] n by simp
  have cnt: "commits (write_loop stmt N documents 0) = (length documents + nat N - 1) div nat N" for stmt
    using n by (simp add: loop commits_commit_every length_batches)
  have rN: "real_of_int N = real (nat N)" using n by simp
  have ceil: "int ((length documents + nat N - 1) div nat N)
      = \<lceil>real (length documents) / real_of_int N\<rceil>"
    unfolding rN using n(2) by (rule ceil_div)
  have ups: "singlestore_upsert md5 self (d # ds) (Some N) = ([], Some AttributeError)"
    unfolding singlestore_upsert_def by (rule upsert_loop_raises)
  have upe: "singlestore_upsert md5 self [] (Some N) = ([], None)"
    by (simp add: singlestore_upsert_def)
  have dflt: "singlestore_upsert md5 self documents None
      = singlestore_upsert md5 self documents (Some 20)"
    by (simp add: singlestore_upsert_def)
  have ins: "singlestore_insert md5 self documents (Some N)
           = commit_every (nat N) (map (insert_statement md5 (s_embedder self)) documents)
       \<and> executed (singlestore_insert md5 self documents (Some N))
           = map (insert_statement md5 (s_embedder self)) documents
       \<and> commits (singlestore_insert md5 self documents (Some N))
           = (length documents + nat N - 1) div nat N
       \<and> int (commits (singlestore_insert md5 self documents (Some N)))
           = \<lceil>real (length documents) / real_of_int N\<rceil>
       \<and> singlestore_insert md5 self documents None = singlestore_insert md5 self documents (Some 10)"
    using ceil
    by (simp add: singlestore_insert_def executed_write_loop cnt) (simp add: loop)
  show ?thesis
    using ins dflt ups upe by blast
qed

theorem write_path_batched_commits_witness:
  "(1::int) \<le> 2
   \<and> singlestore_insert toy_md5 s2 three_docs (Some 2)
       = [Execute (insert_statement toy_md5 test_embedder fox),
          Execute (insert_statement toy_md5 test_embedder mute), Commit,
          Execute (insert_statement toy_md5 test_embedder fox), Commit]
   \<and> commits (singlestore_insert toy_md5 s2 three_docs (Some 2)) = 2
   \<and> singlestore_upsert toy_md5 s2 three_docs (Some 2) = ([], Some AttributeError)"
proof -
  have h: "(1::int) \<le> 2" by simp
  have b: "batches 2 [a, b, c] = [[a, b], [c]]" for a b c :: statement
    by (simp add: batches.simps [of 2 "[a, b, c]"] batches.simps [of 2 "[c]"] batches.simps [of 2 "[]"])
  have t: "three_docs = fox # [mute, fox]" by (simp add: three_docs_def)
  have i: "singlestore_insert toy_md5 s2 three_docs (Some 2)
       = [Execute (insert_statement toy_md5 test_embedder fox),
          Execute (insert_statement toy_md5 test_embedder mute), Commit,
          Execute (insert_statement toy_md5 test_embedder fox), Commit]
     \<and> commits (singlestore_insert toy_md5 s2 three_docs (Some 2)) = 2"
    using write_path_batched_commits [OF h, of toy_md5 s2 three_docs]
    by (simp add: three_docs_def s2_def commit_every_def b)
  have u: "singlestore_upsert toy_md5 s2 three_docs (Some 2) = ([], Some AttributeError)"
    unfolding t using write_path_batched_commits [OF h, of toy_md5 s2 "[]" fox "[mute, fox]"]
    by blast
  show ?thesis using h i u by blast
qed

section \<open>Construction\<close>

text \<open>
  C8. Construction of the relational adapter fails exactly when neither an engine nor a
  URL is given. Construction of the columnar adapter with a table handle (of a non-empty
  table with a non-empty schema) does not succeed: it raises \<open>AttributeError\<close> at the read
  of \<open>self.tbl\<close>. A truthy object of another type is refused with \<open>ValueError\<close>, a falsy one
  is treated like no connection; without a connection, construction succeeds exactly
  when the provider returns an embedding of the test text.
\<close>

theorem LanceDb_init_with_connection_raises:
  "LanceDb_init e dst (Some (LanceTable n \<lparr>schema_names = vcol # cols, rows = r # rs, fts_builds = k\<rparr>))
      u tname np qt rr db = Inl AttributeError
   \<and> LanceDb_init e dst (Some (OtherObject True)) u tname np qt rr db = Inl ValueError
   \<and> LanceDb_init e dst (Some (OtherObject False)) u tname np qt rr db
       = LanceDb_init e dst None u tname np qt rr db
   \<and> (singlestore_init coll sch url eng e dst = Inl ValueError) = (eng = None \<and> url = None)
   \<and> (case LanceDb_init e dst None u tname np qt rr db of
         Inl err \<Rightarrow> get_embedding e (ascii ''test'') = None
       | Inr s \<Rightarrow> get_embedding e (ascii ''test'') \<noteq> None)"
  by (auto simp add: LanceDb_init_def singlestore_init_def init_table_def then_do_def Let_def
      split: option.splits)

section \<open>The full-text index\<close>

lemma ensure_fts_index_cases:
  "ensure_fts_index self =
     (if fts_index_exists self then Inr self
      else case client self (connection self) of
             None \<Rightarrow> Inl TableNotFound
           | Some t \<Rightarrow> Inr (self\<lparr>client := (client self)(connection self \<mapsto>
                                  t\<lparr>fts_builds := Suc (fts_builds t)\<rparr>),
                               fts_index_exists := True\<rparr>))"
  by (simp add: ensure_fts_index_def create_fts_index_def then_do_def split: option.splits)

lemma connection_search_cases:
  "connection_search eng self q =
     (case client self (connection self) of None \<Rightarrow> Inl TableNotFound | Some t \<Rightarrow> Inr (eng q t))"
  by (simp add: connection_search_def)

lemma run_call_cases:
  "run_call eng self c =
     (if reaches_index self c \<and> \<not> fts_index_exists self
      then self\<lparr>client := (client self)(connection self \<mapsto>
                   (the (client self (connection self)))
                     \<lparr>fts_builds := Suc (fts_builds (the (client self (connection self))))\<rparr>),
                fts_index_exists := True\<rparr>
      else self)"
  by (cases c)
    (auto simp add: keyword_search_def hybrid_search_def ensure_fts_index_cases
      connection_search_cases then_do_def split: option.splits)

lemma run_call_step:
  "index_builds (run_call eng self c)
     = index_builds self + (if reaches_index self c \<and> \<not> fts_index_exists self then 1 else 0)
   \<and> fts_index_exists (run_call eng self c)
     = (fts_index_exists self \<or> reaches_index self c)
   \<and> reaches_index (run_call eng self c) c' = reaches_index self c'"
  by (cases c'; cases c) (auto simp add: run_call_cases index_builds_def)

lemma run_calls_steps:
  "index_builds (run_calls eng self cs)
     = index_builds self
       + (if \<not> fts_index_exists self \<and> (\<exists>c \<in> set cs. reaches_index self c) then 1 else 0)
   \<and> fts_index_exists (run_calls eng self cs)
     = (fts_index_exists self \<or> (\<exists>c \<in> set cs. reaches_index self c))"
proof (induction cs arbitrary: self)
  case Nil
  show ?case by simp
next
  case (Cons c cs)
  have r: "reaches_index (run_call eng self c) c' = reaches_index self c'" for c'
    using run_call_step by blast
  show ?case
    using Cons.IH [of "run_call eng self c"] run_call_step [of eng self c]
    by (auto simp add: r)
qed

text \<open>
  C9, as amended. Over any sequence of lexical and hybrid queries on one instance the
  index is built at most once. The build happens at the first query that reaches it: a
  lexical query, or a hybrid query whose embedding the provider returns, on an existing
  table; it sets \<open>fts_index_exists\<close>, and once that is set no query changes the instance.
  A hybrid query whose embedding is absent returns the empty list and leaves the
  instance as it is.
\<close>

theorem fts_index_built_at_most_once:
  "index_builds (run_calls eng self cs)
     = index_builds self
       + (if \<not> fts_index_exists self \<and> (\<exists>c \<in> set cs. reaches_index self c) then 1 else 0)
   \<and> index_builds (run_calls eng self cs) \<le> index_builds self + 1
   \<and> fts_index_exists (run_calls eng self cs)
     = (fts_index_exists self \<or> (\<exists>c \<in> set cs. reaches_index self c))
   \<and> (fts_index_exists self \<longrightarrow> run_calls eng self cs = self)
   \<and> (get_embedding (l_embedder self) query = None \<longrightarrow>
        hybrid_search eng self query limit = Inr ([], self))"
proof -
  have stay: "fts_index_exists s \<Longrightarrow> run_calls eng s cs = s" for s
    by (induction cs arbitrary: s) (simp_all add: run_call_cases)
  have hyb: "get_embedding (l_embedder self) query = None \<longrightarrow>
        hybrid_search eng self query limit = Inr ([], self)"
    by (simp add: hybrid_search_def)
  show ?thesis
    using run_calls_steps [of eng self cs] stay [of self] hyb by simp
qed

theorem fts_index_built_at_most_once_witness:
  "\<not> fts_index_exists fresh
   \<and> get_embedding (l_embedder fresh) (ascii ''zzz'') = None
   \<and> index_builds fresh = 0
   \<and> index_builds (run_calls all_rows fresh
        [Hybrid (ascii ''zzz'') 5, Fts (ascii ''fox'') 5, Hybrid (ascii ''fox'') 5,
         Fts (ascii ''a'') 5]) = 1
   \<and> hybrid_search all_rows fresh (ascii ''zzz'') 5 = Inr ([], fresh)"
proof -
  let ?cs = "[Hybrid (ascii ''zzz'') 5, Fts (ascii ''fox'') 5, Hybrid (ascii ''fox'') 5,
              Fts (ascii ''a'') 5]"
  note T = fts_index_built_at_most_once [of all_rows fresh ?cs "ascii ''zzz''" 5]
  have f: "\<not> fts_index_exists fresh" by (simp add: fresh_def)
  have g: "get_embedding (l_embedder fresh) (ascii ''zzz'') = None"
    by (simp add: fresh_def test_embedder_def ascii_def)
  have b: "index_builds fresh = 0" by (simp add: index_builds_def fresh_def empty_table_def)
  have r: "reaches_index fresh (Fts (ascii ''fox'') 5)" by (simp add: fresh_def)
  have cond: "(\<not> fts_index_exists fresh \<and> (\<exists>c \<in> set ?cs. reaches_index fresh c)) = True"
    using f r by simp
  have c1: "index_builds (run_calls all_rows fresh ?cs)
     = index_builds fresh
       + (if \<not> fts_index_exists fresh \<and> (\<exists>c \<in> set ?cs. reaches_index fresh c) then 1 else 0)"
    using T by (rule conjunct1)
  have one: "index_builds (run_calls all_rows fresh ?cs) = 1"
    unfolding c1 cond b by simp
  have h: "hybrid_search all_rows fresh (ascii ''zzz'') 5 = Inr ([], fresh)"
    using T g by blast
  show ?thesis using f g b one h by blast
qed

text \<open>
  C9 as stated fails: a first hybrid query whose embedding is absent does not move the
  instance that \<open>__init__\<close> produced out of the state without an index.
\<close>

theorem first_hybrid_query_no_index_counterexample:
  "LanceDb_init test_embedder cosine None (ascii ''/tmp/lancedb'') (ascii ''phi'') None
       (Some ''fts'') None Map.empty = Inr fresh
   \<and> hybrid_search all_rows fresh (ascii ''zzz'') 5 = Inr ([], fresh)
   \<and> fts_index_exists (run_calls all_rows fresh [Hybrid (ascii ''zzz'') 5]) = False
   \<and> index_builds (run_calls all_rows fresh [Hybrid (ascii ''zzz'') 5]) = 0"
proof -
  have i: "LanceDb_init test_embedder cosine None (ascii ''/tmp/lancedb'') (ascii ''phi'') None
       (Some ''fts'') None Map.empty = Inr fresh"
    by (simp add: LanceDb_init_def init_table_def then_do_def test_embedder_def fresh_def)
  have h: "hybrid_search all_rows fresh (ascii ''zzz'') 5 = Inr ([], fresh)"
    by (simp add: hybrid_search_def fresh_def test_embedder_def ascii_def)
  have b: "index_builds fresh = 0" "fts_index_exists fresh = False"
    by (simp_all add: index_builds_def fresh_def empty_table_def)
  show ?thesis using i h b by simp
qed

section \<open>The relational search\<close>

text \<open>
  C10. An instance that \<open>__init__\<close> produced has no attribute \<open>index\<close>. For a query whose
  embedding the provider returns, \<open>search\<close> reads that attribute before it executes its
  statement, so the call raises \<open>AttributeError\<close> and returns no documents.
\<close>

theorem singlestore_search_attribute_error:
  assumes "singlestore_init coll sch url eng e dst = Inr self"
      and "get_embedding e query = Some v"
  shows "singlestore_search sqleng self query limit fltrs db = Inl AttributeError"
  using assms
  by (auto simp add: singlestore_init_def singlestore_search_def search_statement_def
      then_do_def Let_def split: option.splits if_splits)

theorem singlestore_search_attribute_error_witness:
  "singlestore_init (ascii ''docs'') (Some (ascii ''ai'')) (Some (ascii ''mysql://h/db'')) None
      test_embedder cosine = Inr s2
   \<and> get_embedding test_embedder (ascii ''fox'') = Some [1, 0, 0]
   \<and> singlestore_search no_rows s2 (ascii ''fox'') 5 None Map.empty = Inl AttributeError"
proof -
  have i: "singlestore_init (ascii ''docs'') (Some (ascii ''ai'')) (Some (ascii ''mysql://h/db'')) None
      test_embedder cosine = Inr s2"
    by (simp add: singlestore_init_def s2_def create_engine_def test_embedder_def)
  have g: "get_embedding test_embedder (ascii ''fox'') = Some [1, 0, 0]"
    by (simp add: test_embedder_def)
  show ?thesis
    using i g singlestore_search_attribute_error [OF i g, of no_rows 5 None Map.empty] by simp
qed

end
